theory Spec2Isabelle
  imports Main "HOL-Library.AList" "HOL-Library.Sublist" "HOL-Library.Word"
begin

section \<open>JavaScript strings\<close>

text \<open>
  Strings are HOL strings whose characters are read as the code units 0 to 255 (Latin-1).
  \<open>toLowerCase\<close> maps the upper-case letters of that range to their lower-case
  partners, \<open>trim\<close> removes the white-space characters of that range.
\<close>

definition upper_chars :: "char list" where
  "upper_chars = ''ABCDEFGHIJKLMNOPQRSTUVWXYZ'' @
     [CHR 0xC0, CHR 0xC1, CHR 0xC2, CHR 0xC3, CHR 0xC4, CHR 0xC5, CHR 0xC6, CHR 0xC7,
      CHR 0xC8, CHR 0xC9, CHR 0xCA, CHR 0xCB, CHR 0xCC, CHR 0xCD, CHR 0xCE, CHR 0xCF,
      CHR 0xD0, CHR 0xD1, CHR 0xD2, CHR 0xD3, CHR 0xD4, CHR 0xD5, CHR 0xD6,
      CHR 0xD8, CHR 0xD9, CHR 0xDA, CHR 0xDB, CHR 0xDC, CHR 0xDD, CHR 0xDE]"

definition lower_chars :: "char list" where
  "lower_chars = ''abcdefghijklmnopqrstuvwxyz'' @
     [CHR 0xE0, CHR 0xE1, CHR 0xE2, CHR 0xE3, CHR 0xE4, CHR 0xE5, CHR 0xE6, CHR 0xE7,
      CHR 0xE8, CHR 0xE9, CHR 0xEA, CHR 0xEB, CHR 0xEC, CHR 0xED, CHR 0xEE, CHR 0xEF,
      CHR 0xF0, CHR 0xF1, CHR 0xF2, CHR 0xF3, CHR 0xF4, CHR 0xF5, CHR 0xF6,
      CHR 0xF8, CHR 0xF9, CHR 0xFA, CHR 0xFB, CHR 0xFC, CHR 0xFD, CHR 0xFE]"

definition toLowerChar :: "char \<Rightarrow> char" where
  "toLowerChar c = (case map_of (zip upper_chars lower_chars) c of Some l \<Rightarrow> l | None \<Rightarrow> c)"

definition toLowerCase :: "string \<Rightarrow> string" where
  "toLowerCase s = map toLowerChar s"

fun startsWith :: "string \<Rightarrow> string \<Rightarrow> bool" where
  "startsWith s [] = True"
| "startsWith [] (c # t) = False"
| "startsWith (d # s) (c # t) = (d = c \<and> startsWith s t)"

text \<open>\<open>s.includes(t)\<close>: \<open>t\<close> occurs in \<open>s\<close> as a contiguous run.\<close>

fun js_includes :: "string \<Rightarrow> string \<Rightarrow> bool" where
  "js_includes [] t = (t = [])"
| "js_includes (c # s) t = (startsWith (c # s) t \<or> js_includes s t)"

definition js_whitespace :: "char list" where
  "js_whitespace = [CHR 0x09, CHR 0x0A, CHR 0x0B, CHR 0x0C, CHR 0x0D, CHR 0x20, CHR 0xA0]"

definition trim :: "string \<Rightarrow> string" where
  "trim s = rev (dropWhile (\<lambda>c. c \<in> set js_whitespace)
                  (rev (dropWhile (\<lambda>c. c \<in> set js_whitespace) s)))"

definition digit_char :: "nat \<Rightarrow> char" where
  "digit_char d = ''0123456789'' ! d"

function string_of_nat :: "nat \<Rightarrow> string" where
  "string_of_nat n =
     (if n < 10 then [digit_char n] else string_of_nat (n div 10) @ [digit_char (n mod 10)])"
  by pat_completeness auto
termination
  by (relation "measure id") auto

declare string_of_nat.simps [simp del]

section \<open>Exceptions\<close>

datatype js_error = TypeError

definition bind_err :: "js_error + 'a \<Rightarrow> ('a \<Rightarrow> js_error + 'b) \<Rightarrow> js_error + 'b" where
  "bind_err r f = (case r of Inl e \<Rightarrow> Inl e | Inr a \<Rightarrow> f a)"

text \<open>A \<open>forEach\<close> whose callback may raise: the first exception ends the loop.\<close>

fun forEach_err :: "('s \<Rightarrow> 'a \<Rightarrow> js_error + 's) \<Rightarrow> 's \<Rightarrow> 'a list \<Rightarrow> js_error + 's" where
  "forEach_err f s [] = Inr s"
| "forEach_err f s (x # xs) = (case f s x of Inl e \<Rightarrow> Inl e | Inr s' \<Rightarrow> forEach_err f s' xs)"

section \<open>JavaScript values\<close>

text \<open>
  The values a field of a record can hold: plain data, without functions. Numbers are the
  integers from 0 to \<open>2^53 - 1\<close>, each of which is a number of the language and prints in
  decimal. An object is an ordinary object, given by the list of its own properties in
  insertion order and read as a finite map (that JavaScript enumerates integer-like keys
  first is not distinguished).
\<close>

datatype jsval =
    JUndefined
  | JNull
  | JBool bool
  | JNum "53 word"
  | JStr string
  | JObj "(string \<times> jsval) list"

type_synonym js_object = "(string \<times> jsval) list"

fun truthy :: "jsval \<Rightarrow> bool" where
  "truthy JUndefined = False"
| "truthy JNull = False"
| "truthy (JBool b) = b"
| "truthy (JNum n) = (n \<noteq> 0)"
| "truthy (JStr s) = (s \<noteq> [])"
| "truthy (JObj ob) = True"

text \<open>
  String conversion, as a template literal performs it. An object is converted through
  its \<open>toString\<close>: the inherited one prints \<open>[object Object]\<close>; an own property \<open>toString\<close>
  hides it, and as no value here is callable the conversion then falls through
  \<open>valueOf\<close> (an own one is not callable, the inherited one returns the object) and raises
  a \<open>TypeError\<close>.
\<close>

fun js_to_string :: "jsval \<Rightarrow> js_error + string" where
  "js_to_string JUndefined = Inr ''undefined''"
| "js_to_string JNull = Inr ''null''"
| "js_to_string (JBool b) = Inr (if b then ''true'' else ''false'')"
| "js_to_string (JNum n) = Inr (string_of_nat (unat n))"
| "js_to_string (JStr s) = Inr s"
| "js_to_string (JObj ob) =
     (if ''toString'' \<in> set (map fst ob) then Inl TypeError else Inr ''[object Object]'')"

text \<open>\<open>a || b\<close>.\<close>

definition js_or :: "jsval \<Rightarrow> jsval \<Rightarrow> jsval" where
  "js_or a b = (if truthy a then a else b)"

text \<open>\<open>s || d\<close> for a string \<open>s\<close>.\<close>

definition str_or :: "string \<Rightarrow> string \<Rightarrow> string" where
  "str_or s d = (if s \<noteq> [] then s else d)"

text \<open>
  \<open>ob[k] = v\<close> on a plain object: an existing property keeps its place, a new one is
  appended; an assignment to \<open>__proto__\<close> creates no own property.
\<close>

definition obj_set :: "string \<Rightarrow> jsval \<Rightarrow> js_object \<Rightarrow> js_object" where
  "obj_set k v ob = (if k = ''__proto__'' then ob else AList.update k v ob)"

section \<open>The parsed document\<close>

text \<open>
  The parser is configured with \<open>explicitArray: false\<close>: a child element that occurs once
  is a bare node, one that occurs several times is an array, one that does not occur is
  missing. An element with character data carries it in the field \<open>_\<close>.
\<close>

datatype 'a xml_child = Missing | One 'a | Many "'a list"

fun to_array :: "'a xml_child \<Rightarrow> 'a list" where
  "to_array Missing = []"
| "to_array (One a) = [a]"
| "to_array (Many as) = as"

type_synonym text_element = "string option"

record ifl_property =
  prop_key :: "text_element option"
  prop_value :: "text_element option"

record extension_elements =
  properties :: "ifl_property xml_child"

text \<open>
  A message flow with its attributes \<open>id\<close> and \<open>name\<close>, as values (\<open>JUndefined\<close> when the
  attribute is missing), and its \<open>bpmn2:extensionElements\<close>.
\<close>

record message_flow =
  flow_id :: jsval
  flow_name :: jsval
  flow_extensionElements :: "extension_elements option"

record collaboration =
  collab_extensionElements :: "extension_elements option"
  messageFlow :: "message_flow xml_child"

text \<open>
  \<open>bpmn2:definitions\<close>. Its process nodes are read by the process-level scans only, whose
  results enter the extractors below as arguments.
\<close>

record definitions =
  bpmn2_collaboration :: "collaboration option"

text \<open>\<open>None\<close>: the parsed document is missing or has no \<open>bpmn2:definitions\<close>.\<close>

type_synonym parsed_xml = "definitions option"

section \<open>BaseXmlExtractor\<close>

definition key_is :: "string \<Rightarrow> ifl_property \<Rightarrow> bool" where
  "key_is targetKey prop = (case prop_key prop of Some (Some k) \<Rightarrow> k = targetKey | _ \<Rightarrow> False)"

definition getPropertyValue :: "ifl_property list \<Rightarrow> string \<Rightarrow> string" where
  "getPropertyValue propertyArray targetKey =
     (case find (key_is targetKey) propertyArray of
        None \<Rightarrow> ''''
      | Some property \<Rightarrow> (case prop_value property of Some (Some v) \<Rightarrow> v | _ \<Rightarrow> ''''))"

definition getMessageFlows :: "parsed_xml \<Rightarrow> message_flow list" where
  "getMessageFlows parsedXml =
     (case parsedXml of
        None \<Rightarrow> []
      | Some defs \<Rightarrow> (case bpmn2_collaboration defs of
                        None \<Rightarrow> []
                      | Some c \<Rightarrow> to_array (messageFlow c)))"

definition getCollaborationProperties :: "parsed_xml \<Rightarrow> ifl_property list" where
  "getCollaborationProperties parsedXml =
     (case parsedXml of
        None \<Rightarrow> []
      | Some defs \<Rightarrow> (case bpmn2_collaboration defs of
                        None \<Rightarrow> []
                      | Some c \<Rightarrow> (case collab_extensionElements c of
                                     None \<Rightarrow> []
                                   | Some ext \<Rightarrow> to_array (properties ext))))"

text \<open>The properties of a message flow, once its extension elements are known to exist.\<close>

definition ext_properties :: "extension_elements \<Rightarrow> ifl_property list" where
  "ext_properties ext = to_array (properties ext)"

text \<open>\<open>prop.key && prop.key._\<close>: the key when it is a non-empty string.\<close>

definition truthy_key :: "ifl_property \<Rightarrow> string option" where
  "truthy_key prop =
     (case prop_key prop of Some (Some k) \<Rightarrow> (if k = [] then None else Some k) | _ \<Rightarrow> None)"

text \<open>\<open>prop.value ? prop.value._ : ''\<close>.\<close>

definition value_text :: "ifl_property \<Rightarrow> jsval" where
  "value_text prop =
     (case prop_value prop of
        None \<Rightarrow> JStr ''''
      | Some None \<Rightarrow> JUndefined
      | Some (Some v) \<Rightarrow> JStr v)"

text \<open>
  \<open>getPropertyValue(properties, 'Name') || flow.id || `Adapter_${index}`\<close>, shared by the
  adapter, security and persistence extractors. The index of an array element is below
  \<open>2^32\<close> and prints in decimal.
\<close>

definition adapterName_of :: "ifl_property list \<Rightarrow> message_flow \<Rightarrow> nat \<Rightarrow> jsval" where
  "adapterName_of props flow index =
     js_or (JStr (getPropertyValue props ''Name''))
       (js_or (flow_id flow) (JStr (''Adapter_'' @ string_of_nat index)))"

section \<open>AdapterExtractor\<close>

text \<open>
  The adapter extractor returns its log next to its result. An entry is the level, the
  message and the list of available property keys where the call passes one.
\<close>

datatype log_level = Debug | Warn

record log_entry =
  level :: log_level
  message :: string
  keys :: "string list"

definition log :: "log_level \<Rightarrow> string \<Rightarrow> string list \<Rightarrow> log_entry" where
  "log l m ks = \<lparr> level = l, message = m, keys = ks \<rparr>"

record resource_metadata =
  rm_name :: jsval
  rm_cmdVariantUri :: string
  rm_componentType :: string

text \<open>\<open>content\<close> is the object that the code hands to \<open>JSON.stringify\<close>.\<close>

record adapter_configuration =
  content :: js_object
  resourceMetadata :: resource_metadata

record adapter =
  adapter_name :: jsval
  adapter_type :: string
  adapter_category :: string
  adapter_direction :: string
  adapter_config :: adapter_configuration

text \<open>\<open>properties.map(p => p.key ? p.key._ : 'Unknown').filter(k => k)\<close>.\<close>

definition available_keys :: "ifl_property list \<Rightarrow> string list" where
  "available_keys props =
     List.map_filter
       (\<lambda>p. case prop_key p of
               None \<Rightarrow> Some ''Unknown''
             | Some None \<Rightarrow> None
             | Some (Some k) \<Rightarrow> (if k = [] then None else Some k)) props"

definition content_step :: "js_object \<Rightarrow> ifl_property \<Rightarrow> js_object" where
  "content_step contentProps prop =
     (case (truthy_key prop, prop_value prop) of
        (Some k, Some v) \<Rightarrow> obj_set k (JStr (case v of None \<Rightarrow> '''' | Some s \<Rightarrow> s)) contentProps
      | _ \<Rightarrow> contentProps)"

definition processMessageFlow ::
    "message_flow \<Rightarrow> nat \<Rightarrow> string \<Rightarrow> log_entry list \<times> adapter option" where
  "processMessageFlow flow index flowId =
     (case flow_extensionElements flow of
        None \<Rightarrow>
          ([log Debug ''Processing message flow'' [],
            log Debug ''No extensionElements found in message flow'' []], None)
      | Some extensionElements \<Rightarrow>
          (let props = ext_properties extensionElements;
               adapterName = adapterName_of props flow index;
               adapterType = str_or (getPropertyValue props ''ComponentType'') ''Unknown'';
               adapterCategory = str_or (getPropertyValue props ''direction'') ''Unknown'';
               log1 = [log Debug ''Processing message flow'' [],
                       log Debug ''Extracted properties'' (available_keys props)]
           in if adapterType = ''Unknown'' \<and> adapterCategory = ''Unknown''
              then (log1 @ [log Warn ''Skipping adapter due to missing ComponentType and direction''
                              (available_keys props)], None)
              else
                (let cmdVariantUri = str_or (getPropertyValue props ''cmdVariantUri'') ''N/A'';
                     contentProps0 = foldl content_step [] props;
                     contentProps1 = (if truthy (flow_id flow)
                                      then obj_set ''id'' (flow_id flow) contentProps0
                                      else contentProps0);
                     contentProps = (if truthy adapterName
                                     then obj_set ''name'' adapterName contentProps1
                                     else contentProps1)
                 in (log1 @ [log Debug ''Processed adapter resource'' []],
                     Some \<lparr> adapter_name = adapterName,
                            adapter_type = adapterType,
                            adapter_category = adapterCategory,
                            adapter_direction = adapterCategory,
                            adapter_config =
                              \<lparr> content = contentProps,
                                resourceMetadata =
                                  \<lparr> rm_name = adapterName,
                                    rm_cmdVariantUri = cmdVariantUri,
                                    rm_componentType = adapterType \<rparr> \<rparr> \<rparr>))))"

text \<open>
  \<open>messageFlows.map((flow, index) => ...).filter(resource => resource !== null)\<close>, with the
  log entries of the calls in order. Nothing in the body can raise on a document of the
  type above, so the \<open>catch\<close> branch (which returns the empty list too) is never taken.
\<close>

definition extractAdapters :: "parsed_xml \<Rightarrow> string \<Rightarrow> log_entry list \<times> adapter list" where
  "extractAdapters parsedXml flowId =
     (case parsedXml of
        None \<Rightarrow> ([log Warn ''Invalid or missing parsed XML'' []], [])
      | Some defs \<Rightarrow>
          (let messageFlows = getMessageFlows parsedXml;
               log0 = [log Debug ''Extracted message flows'' []]
           in if length messageFlows = 0
              then (log0 @ [log Warn ''No message flows found in XML'' []], [])
              else
                (let results = map (\<lambda>(index, flow). processMessageFlow flow index flowId)
                                 (enumerate 0 messageFlows)
                 in (log0 @ concat (map fst results),
                     List.map_filter snd results))))"

section \<open>SecurityExtractor\<close>

text \<open>
  A security mechanism, as the extractor emits it and as the processor receives it. The
  processor reads its input without checking types, so the fields are values;
  \<open>configuration\<close> is a plain object or absent.
\<close>

record mechanism =
  mechanism_name :: jsval
  mechanism_type :: jsval
  direction :: jsval
  configuration :: "js_object option"

definition security_related :: "string \<Rightarrow> bool" where
  "security_related k =
     (js_includes (toLowerCase k) ''auth'' \<or>
      js_includes (toLowerCase k) ''certificate'' \<or>
      js_includes (toLowerCase k) ''credential'' \<or>
      js_includes (toLowerCase k) ''security'' \<or>
      js_includes (toLowerCase k) ''ssl'' \<or>
      js_includes (toLowerCase k) ''tls'' \<or>
      js_includes (toLowerCase k) ''userRole'' \<or>
      js_includes (toLowerCase k) ''clientCertificates'' \<or>
      js_includes (toLowerCase k) ''xsrf'' \<or>
      js_includes (toLowerCase k) ''maximumBodySize'')"

definition collect_step :: "js_object \<Rightarrow> ifl_property \<Rightarrow> js_object" where
  "collect_step securityConfig prop =
     (case truthy_key prop of
        None \<Rightarrow> securityConfig
      | Some k \<Rightarrow> (if security_related k then obj_set k (value_text prop) securityConfig
                   else securityConfig))"

definition collectSecurityConfiguration :: "ifl_property list \<Rightarrow> js_object" where
  "collectSecurityConfiguration props = foldl collect_step [] props"

text \<open>The normalisation of the authentication method inside the extractor.\<close>

definition auth_mechanism_type :: "string \<Rightarrow> string" where
  "auth_mechanism_type authMethod =
     (if js_includes authMethod ''ClientCertificate'' \<or> js_includes authMethod ''Client Certificate''
      then ''Client Certificate''
      else if js_includes authMethod ''Basic'' then ''Basic Authentication''
      else if js_includes authMethod ''OAuth'' then ''OAuth''
      else if js_includes authMethod ''SAML'' then ''SAML''
      else if js_includes authMethod ''JWT'' then ''JWT''
      else authMethod)"

text \<open>
  \<open>if (cond) securityMechanisms.push({ mechanism_name: `${adapterName}...`, ... })\<close>: the
  template literal is evaluated only when the condition holds, and may raise.
\<close>

definition named_mechanism ::
    "bool \<Rightarrow> jsval \<Rightarrow> (string \<Rightarrow> mechanism) \<Rightarrow> js_error + mechanism list" where
  "named_mechanism cond adapterName mk =
     (if cond then bind_err (js_to_string adapterName) (\<lambda>name. Inr [mk name]) else Inr [])"

definition processAuthenticationMechanism ::
    "string \<Rightarrow> jsval \<Rightarrow> string \<Rightarrow> string \<Rightarrow> ifl_property list \<Rightarrow>
     js_error + mechanism list" where
  "processAuthenticationMechanism authMethod adapterName direction' componentType props =
     named_mechanism (authMethod \<noteq> [] \<and> authMethod \<noteq> ''None'') adapterName
       (\<lambda>name.
          (let mechanismName = name @ ''_'' @ authMethod;
               mechanismType = auth_mechanism_type authMethod;
               securityConfig = obj_set ''componentType'' (JStr componentType)
                                  (collectSecurityConfiguration props);
               securityDirection = (if direction' = ''Sender'' then ''Inbound'' else ''Outbound'')
           in \<lparr> mechanism_name = JStr mechanismName,
                mechanism_type = JStr mechanismType,
                direction = JStr securityDirection,
                configuration = Some securityConfig \<rparr>))"

definition processAdditionalSecurity ::
    "ifl_property list \<Rightarrow> jsval \<Rightarrow> string \<Rightarrow> string \<Rightarrow> js_error + mechanism list" where
  "processAdditionalSecurity props adapterName direction' componentType =
     (let isCSRFEnabled = getPropertyValue props ''isCSRFEnabled'';
          privateKeyAlias = str_or (getPropertyValue props ''privateKeyAlias'')
                              (getPropertyValue props ''odataCertAuthPrivateKeyAlias'');
          xsrfProtection = getPropertyValue props ''xsrfProtection'';
          userRole = getPropertyValue props ''userRole''
      in
      bind_err
        (named_mechanism (isCSRFEnabled = ''true'') adapterName
           (\<lambda>name. \<lparr> mechanism_name = JStr (name @ ''_CSRF''),
                     mechanism_type = JStr ''CSRF Protection'',
                     direction = JStr ''Outbound'',
                     configuration = Some [(''csrfEnabled'', JBool True),
                                           (''componentType'', JStr componentType)] \<rparr>))
        (\<lambda>csrf.
      bind_err
        (named_mechanism (privateKeyAlias \<noteq> [] \<and> direction' = ''Receiver'') adapterName
           (\<lambda>name. \<lparr> mechanism_name = JStr (name @ ''_ClientCert''),
                     mechanism_type = JStr ''Client Certificate'',
                     direction = JStr ''Outbound'',
                     configuration = Some [(''privateKeyAlias'', JStr privateKeyAlias),
                                           (''certificateAuthentication'', JBool True),
                                           (''componentType'', JStr componentType)] \<rparr>))
        (\<lambda>cert.
      bind_err
        (named_mechanism (xsrfProtection = ''0'' \<and> direction' = ''Sender'') adapterName
           (\<lambda>name. \<lparr> mechanism_name = JStr (name @ ''_XSRF_Disabled''),
                     mechanism_type = JStr ''XSRF Protection'',
                     direction = JStr ''Inbound'',
                     configuration = Some [(''xsrfProtection'', JBool False),
                                           (''componentType'', JStr componentType)] \<rparr>))
        (\<lambda>xsrf.
      bind_err
        (named_mechanism (userRole \<noteq> [] \<and> direction' = ''Sender'') adapterName
           (\<lambda>name. \<lparr> mechanism_name = JStr (name @ ''_Authorization''),
                     mechanism_type = JStr ''Role-Based Authorization'',
                     direction = JStr ''Inbound'',
                     configuration = Some [(''userRole'', JStr userRole),
                                           (''componentType'', JStr componentType)] \<rparr>))
        (\<lambda>role. Inr (csrf @ cert @ xsrf @ role))))))"

text \<open>The body of the \<open>forEach\<close> over the message flows: what one flow contributes.\<close>

definition flowSecurity :: "message_flow \<Rightarrow> nat \<Rightarrow> js_error + mechanism list" where
  "flowSecurity flow index =
     (case flow_extensionElements flow of
        None \<Rightarrow> Inr []
      | Some extensionElements \<Rightarrow>
          (let props = ext_properties extensionElements;
               direction' = str_or (getPropertyValue props ''direction'') ''Unknown'';
               adapterName = adapterName_of props flow index;
               componentType = str_or (getPropertyValue props ''ComponentType'') ''Unknown'';
               authMethod = (if direction' = ''Sender''
                             then getPropertyValue props ''senderAuthType''
                             else if direction' = ''Receiver''
                             then getPropertyValue props ''authenticationMethod''
                             else [])
           in bind_err
                (processAuthenticationMechanism authMethod adapterName direction' componentType
                   props)
                (\<lambda>authMechanisms.
              bind_err (processAdditionalSecurity props adapterName direction' componentType)
                (\<lambda>additionalSecurity. Inr (authMechanisms @ additionalSecurity)))))"

text \<open>
  The \<open>forEach\<close> itself: the mechanisms of each flow are appended to the list built so
  far; an exception leaves the function.
\<close>

definition extractMessageFlowSecurity :: "parsed_xml \<Rightarrow> js_error + mechanism list" where
  "extractMessageFlowSecurity parsedXml =
     forEach_err
       (\<lambda>securityMechanisms (index, flow).
          bind_err (flowSecurity flow index) (\<lambda>ms. Inr (securityMechanisms @ ms)))
       [] (enumerate 0 (getMessageFlows parsedXml))"

text \<open>What one collaboration property contributes.\<close>

definition collaborationPropSecurity :: "string \<Rightarrow> ifl_property \<Rightarrow> mechanism list" where
  "collaborationPropSecurity flowId prop =
     (case truthy_key prop of
        None \<Rightarrow> []
      | Some k \<Rightarrow>
          (let v = value_text prop in
           (if k = ''corsEnabled'' \<and> v = JStr ''true''
            then [\<lparr> mechanism_name = JStr (flowId @ ''_CORS''),
                    mechanism_type = JStr ''CORS'',
                    direction = JStr ''Inbound'',
                    configuration = Some [(''corsEnabled'', JBool True)] \<rparr>]
            else []) @
           (if k = ''returnExceptionToSender''
            then [\<lparr> mechanism_name = JStr (flowId @ ''_ExceptionHandling''),
                    mechanism_type = JStr ''Exception Handling'',
                    direction = JStr ''Inbound'',
                    configuration = Some
                      [(''returnExceptionToSender'', JBool (v = JStr ''true'')),
                       (''securityImplication'',
                        JStr (if v = JStr ''false'' then ''Prevents information disclosure''
                              else ''May expose internal errors''))] \<rparr>]
            else []) @
           (if k = ''log''
            then [\<lparr> mechanism_name = JStr (flowId @ ''_SecurityLogging''),
                    mechanism_type = JStr ''Security Logging'',
                    direction = JStr ''Inbound'',
                    configuration = Some [(''logLevel'', v), (''auditTrail'', JBool True)] \<rparr>]
            else []) @
           (if k = ''ServerTrace''
            then [\<lparr> mechanism_name = JStr (flowId @ ''_ServerTrace''),
                    mechanism_type = JStr ''Debug Security'',
                    direction = JStr ''Inbound'',
                    configuration = Some
                      [(''serverTrace'', JBool (v = JStr ''true'')),
                       (''securityRisk'',
                        JStr (if v = JStr ''true'' then ''May expose sensitive data in traces''
                              else ''Safe for production''))] \<rparr>]
            else [])))"

definition extractCollaborationSecurity :: "parsed_xml \<Rightarrow> string \<Rightarrow> mechanism list" where
  "extractCollaborationSecurity parsedXml flowId =
     concat (map (collaborationPropSecurity flowId) (getCollaborationProperties parsedXml))"

text \<open>
  The two passes, concatenated. An exception of the message-flow pass reaches the \<open>catch\<close>
  of this function, which returns the empty list; the collaboration pass cannot raise.
\<close>

definition extractSecurity :: "parsed_xml \<Rightarrow> string \<Rightarrow> mechanism list" where
  "extractSecurity parsedXml flowId =
     (case parsedXml of
        None \<Rightarrow> []
      | Some defs \<Rightarrow>
          (case extractMessageFlowSecurity parsedXml of
             Inl e \<Rightarrow> []
           | Inr messageFlowSecurity \<Rightarrow>
               messageFlowSecurity @ extractCollaborationSecurity parsedXml flowId))"

section \<open>ErrorHandlingExtractor\<close>

text \<open>
  One entry of the object that the process-level scan \<open>extractProcessErrorHandling\<close>
  returns. The scan has a \<open>try\<close>/\<open>catch\<close> of its own and reads the process nodes only; the
  extractor below takes its result as an argument, and the element types of its lists are
  left open.
\<close>

record ('e, 't, 'x) process_entry =
  processName :: jsval
  errorSubprocesses :: "'e list option"
  tryCatchPatterns :: "'t list option"
  hasErrorHandling :: bool
  transactionHandling :: "'x option"

type_synonym ('e, 't, 'x) process_details = "(string \<times> ('e, 't, 'x) process_entry) list"

record ('e, 't, 'x) error_details =
  returnExceptionToSender :: "bool option"
  logLevel :: "jsval option"
  serverTrace :: "bool option"
  processDetails :: "('e, 't, 'x) process_details option"

record ('e, 't, 'x) error_handling =
  detection_enabled :: bool
  logging_enabled :: bool
  classification_enabled :: bool
  reporting_enabled :: bool
  error_handling_details :: "('e, 't, 'x) error_details"

definition getDefaultErrorHandling :: "('e, 't, 'x) error_handling" where
  "getDefaultErrorHandling =
     \<lparr> detection_enabled = False,
       logging_enabled = False,
       classification_enabled = False,
       reporting_enabled = False,
       error_handling_details =
         \<lparr> returnExceptionToSender = None, logLevel = None, serverTrace = None,
           processDetails = None \<rparr> \<rparr>"

text \<open>
  The object that \<open>extractCollaborationErrorHandling\<close> builds, starting from \<open>{}\<close>: every
  property is unset at first (\<open>None\<close>).
\<close>

record ('e, 't, 'x) collaboration_error_handling =
  c_reporting_enabled :: "bool option"
  c_logging_enabled :: "bool option"
  c_detection_enabled :: "bool option"
  c_error_handling_details :: "('e, 't, 'x) error_details option"

definition empty_collaboration_error_handling ::
    "('e, 't, 'x) collaboration_error_handling" where
  "empty_collaboration_error_handling =
     \<lparr> c_reporting_enabled = None, c_logging_enabled = None, c_detection_enabled = None,
       c_error_handling_details = None \<rparr>"

text \<open>
  \<open>errorHandling.error_handling_details.f = v\<close>: a \<open>TypeError\<close> when
  \<open>errorHandling.error_handling_details\<close> is undefined.
\<close>

definition set_detail ::
    "(('e, 't, 'x) error_details \<Rightarrow> ('e, 't, 'x) error_details) \<Rightarrow>
     ('e, 't, 'x) collaboration_error_handling \<Rightarrow>
     js_error + ('e, 't, 'x) collaboration_error_handling" where
  "set_detail upd errorHandling =
     (case c_error_handling_details errorHandling of
        None \<Rightarrow> Inl TypeError
      | Some d \<Rightarrow> Inr (errorHandling \<lparr> c_error_handling_details := Some (upd d) \<rparr>))"

definition collaborationErrorHandlingStep ::
    "('e, 't, 'x) collaboration_error_handling \<Rightarrow> ifl_property \<Rightarrow>
     js_error + ('e, 't, 'x) collaboration_error_handling" where
  "collaborationErrorHandlingStep errorHandling prop =
     (case truthy_key prop of
        None \<Rightarrow> Inr errorHandling
      | Some k \<Rightarrow>
          (let v = value_text prop in
           bind_err
             (if k = ''returnExceptionToSender''
              then set_detail (\<lambda>d. d \<lparr> returnExceptionToSender := Some (v = JStr ''true'') \<rparr>)
                     (errorHandling \<lparr> c_reporting_enabled := Some (v = JStr ''true'') \<rparr>)
              else Inr errorHandling)
             (\<lambda>eh1.
           bind_err
             (if k = ''log''
              then set_detail (\<lambda>d. d \<lparr> logLevel := Some v \<rparr>)
                     (eh1 \<lparr> c_logging_enabled := Some (v \<noteq> JStr ''None'' \<and> v \<noteq> JStr '''') \<rparr>)
              else Inr eh1)
             (\<lambda>eh2.
             (if k = ''ServerTrace''
              then set_detail (\<lambda>d. d \<lparr> serverTrace := Some (v = JStr ''true'') \<rparr>)
                     (eh2 \<lparr> c_detection_enabled := Some (v = JStr ''true'') \<rparr>)
              else Inr eh2)))))"

definition extractCollaborationErrorHandling ::
    "parsed_xml \<Rightarrow> js_error + ('e, 't, 'x) collaboration_error_handling" where
  "extractCollaborationErrorHandling parsedXml =
     forEach_err collaborationErrorHandlingStep empty_collaboration_error_handling
       (getCollaborationProperties parsedXml)"

text \<open>\<open>Object.assign(errorHandling, collaborationErrorHandling)\<close>.\<close>

definition assignErrorHandling ::
    "('e, 't, 'x) error_handling \<Rightarrow> ('e, 't, 'x) collaboration_error_handling \<Rightarrow>
     ('e, 't, 'x) error_handling" where
  "assignErrorHandling errorHandling c =
     \<lparr> detection_enabled =
         (case c_detection_enabled c of None \<Rightarrow> detection_enabled errorHandling | Some b \<Rightarrow> b),
       logging_enabled =
         (case c_logging_enabled c of None \<Rightarrow> logging_enabled errorHandling | Some b \<Rightarrow> b),
       classification_enabled = classification_enabled errorHandling,
       reporting_enabled =
         (case c_reporting_enabled c of None \<Rightarrow> reporting_enabled errorHandling | Some b \<Rightarrow> b),
       error_handling_details =
         (case c_error_handling_details c of
            None \<Rightarrow> error_handling_details errorHandling
          | Some d \<Rightarrow> d) \<rparr>"

definition mergeErrorHandlingDetails ::
    "('e, 't, 'x) error_handling \<Rightarrow> ('e, 't, 'x) process_details \<Rightarrow>
     ('e, 't, 'x) error_handling" where
  "mergeErrorHandlingDetails errorHandling pd =
     (if length pd > 0
      then
        (let hasErrorSubprocesses =
               list_ex (\<lambda>(pid, process).
                          case errorSubprocesses process of
                            None \<Rightarrow> False
                          | Some es \<Rightarrow> length es > 0) pd;
             eh1 = (if hasErrorSubprocesses
                    then errorHandling \<lparr> detection_enabled := True,
                                         classification_enabled := True \<rparr>
                    else errorHandling);
             hasTryCatch =
               list_ex (\<lambda>(pid, process).
                          case tryCatchPatterns process of
                            None \<Rightarrow> False
                          | Some ts \<Rightarrow> length ts > 0) pd;
             eh2 = (if hasTryCatch then eh1 \<lparr> logging_enabled := True \<rparr> else eh1)
         in eh2 \<lparr> error_handling_details :=
                    (error_handling_details eh2) \<lparr> processDetails := Some pd \<rparr> \<rparr>)
      else errorHandling)"

text \<open>
  \<open>processErrorHandling\<close> stands for the result of \<open>extractProcessErrorHandling\<close>. An
  exception of the collaboration pass reaches the \<open>catch\<close> of this function, which returns
  the defaults.
\<close>

definition extractErrorHandling ::
    "parsed_xml \<Rightarrow> ('e, 't, 'x) process_details \<Rightarrow> ('e, 't, 'x) error_handling" where
  "extractErrorHandling parsedXml processErrorHandling =
     (case parsedXml of
        None \<Rightarrow> getDefaultErrorHandling
      | Some defs \<Rightarrow>
          (case extractCollaborationErrorHandling parsedXml of
             Inl e \<Rightarrow> getDefaultErrorHandling
           | Inr collaborationErrorHandling \<Rightarrow>
               mergeErrorHandlingDetails
                 (assignErrorHandling getDefaultErrorHandling collaborationErrorHandling)
                 processErrorHandling))"

section \<open>PersistenceExtractor\<close>





























section \<open>BaseProcessor\<close>

text \<open>\<open>data[field]\<close> for the own properties of a security mechanism.\<close>

definition mechanism_field :: "mechanism \<Rightarrow> string \<Rightarrow> jsval" where
  "mechanism_field data field =
     (if field = ''mechanism_name'' then mechanism_name data
      else if field = ''mechanism_type'' then mechanism_type data
      else if field = ''direction'' then direction data
      else if field = ''configuration''
      then (case configuration data of None \<Rightarrow> JUndefined | Some ob \<Rightarrow> JObj ob)
      else JUndefined)"

fun validateRequiredFields :: "mechanism \<Rightarrow> string list \<Rightarrow> bool" where
  "validateRequiredFields data [] = True"
| "validateRequiredFields data (field # requiredFields) =
     (if \<not> truthy (mechanism_field data field) then False
      else validateRequiredFields data requiredFields)"

text \<open>\<open>maxLength\<close> is \<open>None\<close> for the default \<open>null\<close>.\<close>

definition sanitizeString :: "jsval \<Rightarrow> nat option \<Rightarrow> string" where
  "sanitizeString value' maxLength =
     (case value' of
        JStr s \<Rightarrow>
          (if s = [] then []
           else (let sanitized = trim s
                 in case maxLength of
                      None \<Rightarrow> sanitized
                    | Some n \<Rightarrow> (if n \<noteq> 0 \<and> length sanitized > n then take n sanitized
                                 else sanitized)))
      | _ \<Rightarrow> [])"

text \<open>
  \<open>validateJson\<close> on a configuration that is a plain object or absent (a configuration
  given as JSON text is outside this input type).
\<close>

definition validateJson :: "js_object option \<Rightarrow> js_object" where
  "validateJson data = (case data of None \<Rightarrow> [] | Some ob \<Rightarrow> ob)"

section \<open>SecurityProcessor\<close>

definition typeMapping :: "(string \<times> string) list" where
  "typeMapping =
     [(''ClientCertificate'', ''Client Certificate''),
      (''Client Certificate'', ''Client Certificate''),
      (''BasicAuthentication'', ''Basic Authentication''),
      (''Basic Authentication'', ''Basic Authentication''),
      (''OAuth'', ''OAuth''),
      (''OAuth2'', ''OAuth''),
      (''SAML'', ''SAML''),
      (''JWT'', ''JWT''),
      (''None'', ''None''),
      (''CSRF Protection'', ''CSRF Protection''),
      (''XSRF Protection'', ''XSRF Protection''),
      (''CORS'', ''CORS''),
      (''Role-Based Authorization'', ''Role-Based Authorization''),
      (''Exception Handling'', ''Exception Handling''),
      (''Security Logging'', ''Security Logging''),
      (''Debug Security'', ''Debug Security'')]"

text \<open>
  \<open>typeMapping\<close> is an object literal, so \<open>typeMapping[k]\<close> also finds what the literal
  inherits from \<open>Object.prototype\<close>: built-in functions and, under \<open>__proto__\<close>, the
  prototype itself, all of them truthy and none of them a string.
\<close>

definition object_prototype_members :: "string list" where
  "object_prototype_members =
     [''constructor'', ''__proto__'', ''__defineGetter__'', ''__defineSetter__'',
      ''hasOwnProperty'', ''__lookupGetter__'', ''__lookupSetter__'', ''isPrototypeOf'',
      ''propertyIsEnumerable'', ''toString'', ''valueOf'', ''toLocaleString'']"

text \<open>
  What \<open>normalizeSecurityType\<close> returns: a string, or the member of \<open>Object.prototype\<close> of
  the given name.
\<close>

datatype type_result = TypeName string | Inherited string

definition partial_match :: "string \<Rightarrow> string \<times> string \<Rightarrow> bool" where
  "partial_match sanitized entry =
     (js_includes (toLowerCase sanitized) (toLowerCase (fst entry)) \<or>
      js_includes (toLowerCase (fst entry)) (toLowerCase sanitized))"

definition normalizeSecurityType :: "jsval \<Rightarrow> type_result" where
  "normalizeSecurityType mechanismType =
     (if \<not> truthy mechanismType then TypeName ''Unknown''
      else
        (let sanitized = sanitizeString mechanismType (Some 100)
         in case map_of typeMapping sanitized of
              Some v \<Rightarrow> TypeName v
            | None \<Rightarrow>
                (if sanitized \<in> set object_prototype_members then Inherited sanitized
                 else
                   (case find (partial_match sanitized) typeMapping of
                      Some entry \<Rightarrow> TypeName (snd entry)
                    | None \<Rightarrow> TypeName sanitized))))"

text \<open>\<open>mechanism.configuration?.k\<close>, read for its truth value.\<close>

definition config_has :: "mechanism \<Rightarrow> string \<Rightarrow> bool" where
  "config_has m k =
     (case configuration m of
        None \<Rightarrow> False
      | Some ob \<Rightarrow> (case map_of ob k of None \<Rightarrow> False | Some v \<Rightarrow> truthy v))"

text \<open>
  \<open>mechanism.mechanism_type?.toLowerCase() || ''\<close>: a value that is neither nullish nor a
  string has no \<open>toLowerCase\<close>, and the call raises.
\<close>

definition lowered_type :: "mechanism \<Rightarrow> js_error + string" where
  "lowered_type m =
     (case mechanism_type m of
        JUndefined \<Rightarrow> Inr []
      | JNull \<Rightarrow> Inr []
      | JStr s \<Rightarrow> Inr (toLowerCase s)
      | _ \<Rightarrow> Inl TypeError)"

definition direction_of_type :: "mechanism \<Rightarrow> string \<Rightarrow> string" where
  "direction_of_type m mechanismType =
     (if js_includes mechanismType ''sender'' \<or>
         js_includes mechanismType ''authorization'' \<or>
         js_includes mechanismType ''cors'' \<or>
         js_includes mechanismType ''exception handling'' \<or>
         js_includes mechanismType ''logging''
      then ''Inbound''
      else if js_includes mechanismType ''receiver'' \<or>
              js_includes mechanismType ''csrf'' \<or>
              (js_includes mechanismType ''client certificate'' \<and> config_has m ''privateKeyAlias'')
      then ''Outbound''
      else if js_includes mechanismType ''client certificate'' \<and> config_has m ''senderAuthType''
      then ''Inbound''
      else if js_includes mechanismType ''client certificate'' \<and>
              (config_has m ''authenticationMethod'' \<or> config_has m ''privateKeyAlias'')
      then ''Outbound''
      else ''Inbound'')"

definition determineSecurityDirection :: "mechanism \<Rightarrow> js_error + string" where
  "determineSecurityDirection m =
     (let explicit = (if truthy (direction m) then sanitizeString (direction m) (Some 50) else [])
      in if truthy (direction m) \<and> (explicit = ''Inbound'' \<or> explicit = ''Outbound'')
         then Inr explicit
         else bind_err (lowered_type m) (\<lambda>mechanismType. Inr (direction_of_type m mechanismType)))"

definition clean_value :: "jsval \<Rightarrow> jsval" where
  "clean_value v =
     (case v of
        JStr s \<Rightarrow> (if toLowerCase s = ''true'' then JBool True
                   else if toLowerCase s = ''false'' then JBool False
                   else JStr s)
      | _ \<Rightarrow> v)"

definition processSecurityConfiguration :: "js_object option \<Rightarrow> js_object" where
  "processSecurityConfiguration configuration' =
     (case configuration' of
        None \<Rightarrow> []
      | Some ob \<Rightarrow>
          foldl (\<lambda>cleanedConfig (k, v). obj_set k (clean_value v) cleanedConfig) []
            (validateJson configuration'))"

text \<open>A mechanism as the processor returns it.\<close>

record processed_mechanism =
  processed_name :: string
  processed_type :: type_result
  processed_direction :: string
  processed_configuration :: js_object

text \<open>\<open>None\<close>: an exception was caught and \<open>null\<close> returned.\<close>

definition processIndividualSecurityMechanism :: "mechanism \<Rightarrow> processed_mechanism option" where
  "processIndividualSecurityMechanism m =
     (case determineSecurityDirection m of
        Inl e \<Rightarrow> None
      | Inr d \<Rightarrow>
          Some \<lparr> processed_name = sanitizeString (mechanism_name m) (Some 255),
                 processed_type = normalizeSecurityType (mechanism_type m),
                 processed_direction = d,
                 processed_configuration = processSecurityConfiguration (configuration m) \<rparr>)"

text \<open>
  \<open>processSecurityMechanisms\<close> on an array of mechanisms (the fallback for an argument that
  is not an array reads other data and is outside this input type).
\<close>

fun processSecurityMechanisms :: "mechanism list \<Rightarrow> processed_mechanism list" where
  "processSecurityMechanisms [] = []"
| "processSecurityMechanisms (m # securityMechanisms) =
     (if \<not> validateRequiredFields m [''mechanism_name'', ''mechanism_type'']
      then processSecurityMechanisms securityMechanisms
      else (case processIndividualSecurityMechanism m of
              None \<Rightarrow> processSecurityMechanisms securityMechanisms
            | Some processedMechanism \<Rightarrow>
                processedMechanism # processSecurityMechanisms securityMechanisms))"

text \<open>
  The key \<open>`${mechanism.mechanism_name}_${mechanism.direction}`\<close>; the conversion of either
  field may raise.
\<close>

definition dedup_key :: "mechanism \<Rightarrow> js_error + string" where
  "dedup_key m =
     bind_err (js_to_string (mechanism_name m))
       (\<lambda>name. bind_err (js_to_string (direction m)) (\<lambda>dir. Inr (name @ ''_'' @ dir)))"

text \<open>
  The loop of \<open>deduplicateSecurityMechanisms\<close>, with the keys seen and the list built. The
  function has no \<open>try\<close>: an exception leaves it.
\<close>

fun dedup_loop ::
    "string set \<Rightarrow> mechanism list \<Rightarrow> mechanism list \<Rightarrow> js_error + mechanism list" where
  "dedup_loop seen deduplicated [] = Inr deduplicated"
| "dedup_loop seen deduplicated (m # ms) =
     (case dedup_key m of
        Inl e \<Rightarrow> Inl e
      | Inr key \<Rightarrow>
          (if key \<notin> seen
           then dedup_loop (insert key seen) (deduplicated @ [m]) ms
           else dedup_loop seen deduplicated ms))"

definition deduplicateSecurityMechanisms :: "mechanism list \<Rightarrow> js_error + mechanism list" where
  "deduplicateSecurityMechanisms securityMechanisms = dedup_loop {} [] securityMechanisms"

text \<open>The pair that the deduplication is meant to tell records apart by.\<close>

definition name_direction :: "mechanism \<Rightarrow> jsval \<times> jsval" where
  "name_direction m = (mechanism_name m, direction m)"

section \<open>Vocabulary of the properties\<close>

text \<open>
  The properties that a message flow carries: those of its extension elements, none when
  it has no extension elements.
\<close>

definition flow_properties :: "message_flow \<Rightarrow> ifl_property list" where
  "flow_properties flow =
     (case flow_extensionElements flow of None \<Rightarrow> [] | Some ext \<Rightarrow> ext_properties ext)"


text \<open>
  The last log entry of \<open>processMessageFlow\<close> for a flow it skips: the reason of the skip,
  with the available property keys when the flow has extension elements.
\<close>

definition skip_reason :: "message_flow \<Rightarrow> log_entry" where
  "skip_reason flow =
     (case flow_extensionElements flow of
        None \<Rightarrow> log Debug ''No extensionElements found in message flow'' []
      | Some ext \<Rightarrow>
          log Warn ''Skipping adapter due to missing ComponentType and direction''
            (available_keys (ext_properties ext)))"

text \<open>A value converts to a string without raising.\<close>

definition printable :: "jsval \<Rightarrow> bool" where
  "printable v = (case js_to_string v of Inl e \<Rightarrow> False | Inr s \<Rightarrow> True)"


text \<open>
  The key of a record whose name and direction are strings, and the records of a list that
  are the first with their key, given the keys seen before.
\<close>

definition string_key :: "mechanism \<Rightarrow> string" where
  "string_key m = (case dedup_key m of Inl e \<Rightarrow> [] | Inr key \<Rightarrow> key)"

fun first_by_key :: "string set \<Rightarrow> mechanism list \<Rightarrow> mechanism list" where
  "first_by_key seen [] = []"
| "first_by_key seen (m # ms) =
     (if string_key m \<in> seen then first_by_key seen ms
      else m # first_by_key (insert (string_key m) seen) ms)"


section \<open>Example documents\<close>

text \<open>A property \<open><key>k</key><value>v</value>\<close>.\<close>

definition property :: "string \<Rightarrow> string \<Rightarrow> ifl_property" where
  "property k v = \<lparr> prop_key = Some (Some k), prop_value = Some (Some v) \<rparr>"

text \<open>A message flow without attributes that carries the given properties.\<close>

definition flow_of :: "ifl_property list \<Rightarrow> message_flow" where
  "flow_of props =
     \<lparr> flow_id = JUndefined, flow_name = JUndefined,
       flow_extensionElements = Some \<lparr> properties = Many props \<rparr> \<rparr>"

text \<open>A document with the given collaboration properties and message flows.\<close>

definition document :: "ifl_property list \<Rightarrow> message_flow list \<Rightarrow> parsed_xml" where
  "document collaborationProps flows =
     Some \<lparr> bpmn2_collaboration =
              Some \<lparr> collab_extensionElements = Some \<lparr> properties = Many collaborationProps \<rparr>,
                     messageFlow = Many flows \<rparr> \<rparr>"

definition https_in :: message_flow where
  "https_in = flow_of [property ''Name'' ''HTTPS_IN'', property ''direction'' ''Sender'',
                       property ''senderAuthType'' ''BasicAuthentication'']"

definition odata_out :: message_flow where
  "odata_out = flow_of [property ''Name'' ''ODATA_OUT'', property ''direction'' ''Receiver'',
                        property ''authenticationMethod'' ''OAuth2ClientCredentials'']"

definition sender_none :: message_flow where
  "sender_none = flow_of [property ''Name'' ''HTTPS_IN'', property ''direction'' ''Sender'',
                          property ''senderAuthType'' ''None'']"

definition odata_cert :: message_flow where
  "odata_cert = flow_of [property ''Name'' ''ODATA_OUT'', property ''direction'' ''Receiver'',
                         property ''authenticationMethod'' ''ClientCertificate'',
                         property ''privateKeyAlias'' ''key1'']"

definition unknown_flow :: message_flow where
  "unknown_flow = flow_of [property ''Name'' ''X'', property ''ComponentType'' ''Unknown'',
                           property ''direction'' ''Unknown'']"

definition bare_flow :: message_flow where
  "bare_flow = \<lparr> flow_id = JUndefined, flow_name = JUndefined, flow_extensionElements = None \<rparr>"


text \<open>
  A Sender without a \<open>Name\<close> property whose \<open>id\<close> is an object with an own property
  \<open>toString\<close>.
\<close>

definition unprintable_flow :: message_flow where
  "unprintable_flow =
     \<lparr> flow_id = JObj [(''toString'', JStr ''x'')], flow_name = JUndefined,
       flow_extensionElements =
         Some \<lparr> properties = Many [property ''direction'' ''Sender'',
                                     property ''senderAuthType'' ''BasicAuthentication''] \<rparr> \<rparr>"


text \<open>A mechanism with string fields and no configuration.\<close>

definition mech :: "string \<Rightarrow> string \<Rightarrow> string \<Rightarrow> mechanism" where
  "mech n t d =
     \<lparr> mechanism_name = JStr n, mechanism_type = JStr t, direction = JStr d,
       configuration = None \<rparr>"

section \<open>Message flows and their contributions\<close>

lemma enumerate_nth_mem: "i < length xs \<Longrightarrow> (i, xs ! i) \<in> set (enumerate 0 xs)"
  by (simp add: in_set_enumerate_eq)

lemma getMessageFlows_None [simp]: "getMessageFlows None = []"
  by (simp add: getMessageFlows_def)

lemma no_properties_no_value [simp]: "getPropertyValue [] k = []"
  by (simp add: getPropertyValue_def)

lemma named_mechanism_ok:
  "js_to_string a = Inr name \<Longrightarrow> named_mechanism c a mk = Inr (if c then [mk name] else [])"
  by (simp add: named_mechanism_def bind_err_def)

lemma forEach_collect:
  assumes "\<forall>x \<in> set xs. \<exists>ms. F x = Inr ms"
  shows "\<exists>out. forEach_err (\<lambda>acc x. bind_err (F x) (\<lambda>ms. Inr (acc @ ms))) acc xs = Inr out \<and>
               set acc \<subseteq> set out \<and>
               (\<forall>x \<in> set xs. \<forall>ms. F x = Inr ms \<longrightarrow> set ms \<subseteq> set out)"
  using assms
proof (induction xs arbitrary: acc)
  case Nil
  show ?case by simp
next
  case (Cons x xs)
  from Cons.prems obtain ms where ms: "F x = Inr ms" by auto
  from Cons.prems have rest: "\<forall>y \<in> set xs. \<exists>ms. F y = Inr ms" by simp
  from Cons.IH [OF rest, of "acc @ ms"] obtain out where
    out: "forEach_err (\<lambda>acc x. bind_err (F x) (\<lambda>ms. Inr (acc @ ms))) (acc @ ms) xs = Inr out"
      "set (acc @ ms) \<subseteq> set out"
      "\<forall>y \<in> set xs. \<forall>ms. F y = Inr ms \<longrightarrow> set ms \<subseteq> set out"
    by blast
  have "forEach_err (\<lambda>acc x. bind_err (F x) (\<lambda>ms. Inr (acc @ ms))) acc (x # xs) = Inr out"
    using ms out(1) by (simp add: bind_err_def)
  moreover have "set acc \<subseteq> set out" using out(2) by simp
  moreover have "\<forall>y \<in> set (x # xs). \<forall>ms'. F y = Inr ms' \<longrightarrow> set ms' \<subseteq> set out"
    using ms out(2,3) by auto
  ultimately show ?case by blast
qed

lemma flowSecurity_printable:
  assumes "js_to_string (adapterName_of (flow_properties flow) flow i) = Inr name"
  shows "\<exists>ms. flowSecurity flow i = Inr ms"
proof (cases "flow_extensionElements flow")
  case None
  then show ?thesis by (simp add: flowSecurity_def)
next
  case (Some ext)
  with assms have "js_to_string (adapterName_of (ext_properties ext) flow i) = Inr name"
    by (simp add: flow_properties_def)
  then show ?thesis
    using Some
    by (simp add: flowSecurity_def Let_def processAuthenticationMechanism_def
        processAdditionalSecurity_def named_mechanism_ok bind_err_def)
qed

lemma flowSecurity_sender:
  assumes "js_to_string (adapterName_of (flow_properties flow) flow i) = Inr name"
    and "getPropertyValue (flow_properties flow) ''direction'' = ''Sender''"
    and "getPropertyValue (flow_properties flow) ''senderAuthType'' = a"
    and "a \<noteq> []" and "a \<noteq> ''None''"
  shows "\<exists>ms. flowSecurity flow i = Inr ms \<and>
           (\<exists>m \<in> set ms.
              mechanism_name m = JStr (name @ ''_'' @ a) \<and>
              mechanism_type m = JStr (auth_mechanism_type a) \<and>
              direction m = JStr ''Inbound'')"
proof (cases "flow_extensionElements flow")
  case None
  with assms(2) show ?thesis by (simp add: flow_properties_def)
next
  case (Some ext)
  with assms(1) have "js_to_string (adapterName_of (ext_properties ext) flow i) = Inr name"
    by (simp add: flow_properties_def)
  then show ?thesis
    using Some assms(2-5)
    by (simp add: flow_properties_def flowSecurity_def Let_def str_or_def
        processAuthenticationMechanism_def processAdditionalSecurity_def named_mechanism_ok
        bind_err_def)
qed

lemma flowSecurity_receiver:
  assumes "js_to_string (adapterName_of (flow_properties flow) flow i) = Inr name"
    and "getPropertyValue (flow_properties flow) ''direction'' = ''Receiver''"
    and "getPropertyValue (flow_properties flow) ''authenticationMethod'' = a"
    and "a \<noteq> []" and "a \<noteq> ''None''"
  shows "\<exists>ms. flowSecurity flow i = Inr ms \<and>
           (\<exists>m \<in> set ms.
              mechanism_name m = JStr (name @ ''_'' @ a) \<and>
              mechanism_type m = JStr (auth_mechanism_type a) \<and>
              direction m = JStr ''Outbound'')"
proof (cases "flow_extensionElements flow")
  case None
  with assms(2) show ?thesis by (simp add: flow_properties_def)
next
  case (Some ext)
  with assms(1) have "js_to_string (adapterName_of (ext_properties ext) flow i) = Inr name"
    by (simp add: flow_properties_def)
  then show ?thesis
    using Some assms(2-5)
    by (simp add: flow_properties_def flowSecurity_def Let_def str_or_def
        processAuthenticationMechanism_def processAdditionalSecurity_def named_mechanism_ok
        bind_err_def)
qed

lemma printable_converts: "printable v \<Longrightarrow> \<exists>s. js_to_string v = Inr s"
  by (cases "js_to_string v") (simp_all add: printable_def)

text \<open>
  When every adapter name of the document converts to a string, the message-flow pass
  raises nothing, and what each flow contributes is in the result of the extraction.
\<close>

lemma flowSecurity_subset:
  assumes "i < length (getMessageFlows doc)"
    and "\<forall>j < length (getMessageFlows doc).
           printable (adapterName_of (flow_properties (getMessageFlows doc ! j))
                        (getMessageFlows doc ! j) j)"
    and "flowSecurity (getMessageFlows doc ! i) i = Inr ms"
  shows "set ms \<subseteq> set (extractSecurity doc flowId)"
proof -
  let ?flows = "getMessageFlows doc"
  let ?F = "\<lambda>x. flowSecurity (snd x) (fst x)"
  from assms(1) obtain defs where doc: "doc = Some defs" by (cases doc) auto
  have step: "(\<lambda>securityMechanisms (index, flow).
                 bind_err (flowSecurity flow index) (\<lambda>ms. Inr (securityMechanisms @ ms)))
              = (\<lambda>acc x. bind_err (?F x) (\<lambda>ms. Inr (acc @ ms)))"
    by (simp add: case_prod_unfold)
  have all: "\<forall>x \<in> set (enumerate 0 ?flows). \<exists>ms. ?F x = Inr ms"
  proof
    fix x assume "x \<in> set (enumerate 0 ?flows)"
    then have j: "fst x < length ?flows" "snd x = ?flows ! fst x"
      by (auto simp: in_set_enumerate_eq)
    with assms(2) have "printable (adapterName_of (flow_properties (snd x)) (snd x) (fst x))"
      by simp
    then obtain s where "js_to_string (adapterName_of (flow_properties (snd x)) (snd x) (fst x))
                           = Inr s"
      using printable_converts by blast
    then show "\<exists>ms. ?F x = Inr ms" by (rule flowSecurity_printable)
  qed
  from forEach_collect [OF all, of "[]"] obtain out where
    out: "extractMessageFlowSecurity doc = Inr out"
      "\<forall>x \<in> set (enumerate 0 ?flows). \<forall>ms. ?F x = Inr ms \<longrightarrow> set ms \<subseteq> set out"
    unfolding extractMessageFlowSecurity_def step by blast
  have "(i, ?flows ! i) \<in> set (enumerate 0 ?flows)"
    using assms(1) by (rule enumerate_nth_mem)
  with out(2) assms(3) have "set ms \<subseteq> set out" by fastforce
  with out(1) doc show ?thesis by (auto simp: extractSecurity_def)
qed

section \<open>C1: direction inversion\<close>

text \<open>
  C1, as stated, promises a record for every non-empty authentication method. The
  extractor guards the record with \<open>authMethod && authMethod !== 'None'\<close>: a Sender whose
  \<open>senderAuthType\<close> is the non-empty string \<open>None\<close> yields no record at all.
\<close>

theorem direction_inversion_none_counterexample:
  "getPropertyValue (flow_properties sender_none) ''direction'' = ''Sender'' \<and>
   getPropertyValue (flow_properties sender_none) ''senderAuthType'' \<noteq> [] \<and>
   extractSecurity (document [] [sender_none]) ''F'' = []"
  by code_simp

text \<open>
  The name of a record is built with a template literal, which raises when the adapter
  name is an object that hides the inherited \<open>toString\<close>; \<open>extractSecurity\<close> catches the
  exception and returns the empty list.
\<close>

lemma unprintable_adapter_name_example:
  "js_to_string (adapterName_of (flow_properties unprintable_flow) unprintable_flow 0)
     = Inl TypeError \<and>
   extractSecurity (document [] [unprintable_flow]) ''F'' = []"
  by code_simp

text \<open>
  C1, amended: in a document in which the adapter name of every message flow (its \<open>Name\<close>
  property, else its \<open>id\<close>, else \<open>Adapter_\<close> and its index) converts to a string, for
  every message flow whose \<open>direction\<close> property is \<open>Sender\<close> and whose \<open>senderAuthType\<close>
  property is non-empty and not \<open>None\<close>, security extraction yields a record for that
  authentication method (named after the adapter and the method, typed by the method)
  with direction \<open>Inbound\<close>; for every message flow whose \<open>direction\<close> is \<open>Receiver\<close> and
  whose \<open>authenticationMethod\<close> is non-empty and not \<open>None\<close>, it yields such a record with
  direction \<open>Outbound\<close>.
\<close>

theorem direction_inversion:
  assumes "i < length (getMessageFlows doc)"
    and "flow = getMessageFlows doc ! i"
    and "\<forall>j < length (getMessageFlows doc).
           printable (adapterName_of (flow_properties (getMessageFlows doc ! j))
                        (getMessageFlows doc ! j) j)"
    and "js_to_string (adapterName_of (flow_properties flow) flow i) = Inr name"
    and "a \<noteq> []" and "a \<noteq> ''None''"
  shows "(getPropertyValue (flow_properties flow) ''direction'' = ''Sender'' \<and>
          getPropertyValue (flow_properties flow) ''senderAuthType'' = a \<longrightarrow>
          (\<exists>m \<in> set (extractSecurity doc flowId).
             mechanism_name m = JStr (name @ ''_'' @ a) \<and>
             mechanism_type m = JStr (auth_mechanism_type a) \<and>
             direction m = JStr ''Inbound'')) \<and>
         (getPropertyValue (flow_properties flow) ''direction'' = ''Receiver'' \<and>
          getPropertyValue (flow_properties flow) ''authenticationMethod'' = a \<longrightarrow>
          (\<exists>m \<in> set (extractSecurity doc flowId).
             mechanism_name m = JStr (name @ ''_'' @ a) \<and>
             mechanism_type m = JStr (auth_mechanism_type a) \<and>
             direction m = JStr ''Outbound''))"
proof (intro conjI impI)
  assume h: "getPropertyValue (flow_properties flow) ''direction'' = ''Sender'' \<and>
          getPropertyValue (flow_properties flow) ''senderAuthType'' = a"
  from flowSecurity_sender [OF assms(4) _ _ assms(5,6)] h obtain ms m where
    ms: "flowSecurity flow i = Inr ms" "m \<in> set ms"
      "mechanism_name m = JStr (name @ ''_'' @ a)"
      "mechanism_type m = JStr (auth_mechanism_type a)" "direction m = JStr ''Inbound''"
    by blast
  from flowSecurity_subset [OF assms(1,3), of ms flowId] ms(1,2) assms(2)
  have "m \<in> set (extractSecurity doc flowId)" by auto
  with ms(3,4,5) show "\<exists>m \<in> set (extractSecurity doc flowId).
             mechanism_name m = JStr (name @ ''_'' @ a) \<and>
             mechanism_type m = JStr (auth_mechanism_type a) \<and>
             direction m = JStr ''Inbound''" by blast
next
  assume h: "getPropertyValue (flow_properties flow) ''direction'' = ''Receiver'' \<and>
          getPropertyValue (flow_properties flow) ''authenticationMethod'' = a"
  from flowSecurity_receiver [OF assms(4) _ _ assms(5,6)] h obtain ms m where
    ms: "flowSecurity flow i = Inr ms" "m \<in> set ms"
      "mechanism_name m = JStr (name @ ''_'' @ a)"
      "mechanism_type m = JStr (auth_mechanism_type a)" "direction m = JStr ''Outbound''"
    by blast
  from flowSecurity_subset [OF assms(1,3), of ms flowId] ms(1,2) assms(2)
  have "m \<in> set (extractSecurity doc flowId)" by auto
  with ms(3,4,5) show "\<exists>m \<in> set (extractSecurity doc flowId).
             mechanism_name m = JStr (name @ ''_'' @ a) \<and>
             mechanism_type m = JStr (auth_mechanism_type a) \<and>
             direction m = JStr ''Outbound''" by blast
qed

theorem direction_inversion_witness:
  "getPropertyValue (flow_properties https_in) ''direction'' = ''Sender'' \<and>
   getPropertyValue (flow_properties https_in) ''senderAuthType'' = ''BasicAuthentication'' \<and>
   js_to_string (adapterName_of (flow_properties https_in) https_in 0) = Inr ''HTTPS_IN'' \<and>
   (\<exists>m \<in> set (extractSecurity (document [] [https_in, odata_out]) ''F'').
      mechanism_name m = JStr ''HTTPS_IN_BasicAuthentication'' \<and>
      mechanism_type m = JStr ''Basic Authentication'' \<and>
      direction m = JStr ''Inbound'') \<and>
   getPropertyValue (flow_properties odata_out) ''direction'' = ''Receiver'' \<and>
   getPropertyValue (flow_properties odata_out) ''authenticationMethod''
     = ''OAuth2ClientCredentials'' \<and>
   js_to_string (adapterName_of (flow_properties odata_out) odata_out 1) = Inr ''ODATA_OUT'' \<and>
   (\<exists>m \<in> set (extractSecurity (document [] [https_in, odata_out]) ''F'').
      mechanism_name m = JStr ''ODATA_OUT_OAuth2ClientCredentials'' \<and>
      mechanism_type m = JStr ''OAuth'' \<and>
      direction m = JStr ''Outbound'')"
proof -
  let ?doc = "document [] [https_in, odata_out]"
  have flows: "getMessageFlows ?doc = [https_in, odata_out]"
    by (simp add: document_def getMessageFlows_def)
  have s1: "getPropertyValue (flow_properties https_in) ''direction'' = ''Sender''"
    and s2: "getPropertyValue (flow_properties https_in) ''senderAuthType''
               = ''BasicAuthentication''"
    and s3: "js_to_string (adapterName_of (flow_properties https_in) https_in 0)
               = Inr ''HTTPS_IN''"
    and s4: "auth_mechanism_type ''BasicAuthentication'' = ''Basic Authentication''"
    and s5: "printable (adapterName_of (flow_properties https_in) https_in 0)"
    by code_simp+
  have r1: "getPropertyValue (flow_properties odata_out) ''direction'' = ''Receiver''"
    and r2: "getPropertyValue (flow_properties odata_out) ''authenticationMethod''
               = ''OAuth2ClientCredentials''"
    and r3: "js_to_string (adapterName_of (flow_properties odata_out) odata_out 1)
               = Inr ''ODATA_OUT''"
    and r4: "auth_mechanism_type ''OAuth2ClientCredentials'' = ''OAuth''"
    and r5: "printable (adapterName_of (flow_properties odata_out) odata_out 1)"
    by code_simp+
  have all: "\<forall>j < length (getMessageFlows ?doc).
               printable (adapterName_of (flow_properties (getMessageFlows ?doc ! j))
                            (getMessageFlows ?doc ! j) j)"
    using s5 r5 by (simp add: flows less_Suc_eq)
  have i0: "0 < length (getMessageFlows ?doc)" and i1: "1 < length (getMessageFlows ?doc)"
    and f0: "https_in = getMessageFlows ?doc ! 0" and f1: "odata_out = getMessageFlows ?doc ! 1"
    by (simp_all add: flows)
  have a: "\<exists>m \<in> set (extractSecurity ?doc ''F'').
      mechanism_name m = JStr ''HTTPS_IN_BasicAuthentication'' \<and>
      mechanism_type m = JStr ''Basic Authentication'' \<and>
      direction m = JStr ''Inbound''"
    using direction_inversion [OF i0 f0 all s3, of "''BasicAuthentication''" "''F''"] s1 s2 s4
    by simp
  have b: "\<exists>m \<in> set (extractSecurity ?doc ''F'').
      mechanism_name m = JStr ''ODATA_OUT_OAuth2ClientCredentials'' \<and>
      mechanism_type m = JStr ''OAuth'' \<and>
      direction m = JStr ''Outbound''"
    using direction_inversion [OF i1 f1 all r3, of "''OAuth2ClientCredentials''" "''F''"] r1 r2 r4
    by simp
  from a b s1 s2 s3 r1 r2 r3 show ?thesis by blast
qed

section \<open>C2: one Client Certificate record per adapter\<close>

text \<open>
  C2: for a Receiver whose primary authentication method already produces a Client
  Certificate mechanism and which also carries a private-key alias, the output should
  hold exactly one Client Certificate record for that adapter. \<open>processAdditionalSecurity\<close>
  does not look at what the primary method produced: on the Receiver \<open>ODATA_OUT\<close> with
  \<open>authenticationMethod = ClientCertificate\<close> and \<open>privateKeyAlias = key1\<close> the extractor
  returns two Client Certificate records, the alias-derived one second.
\<close>

theorem client_certificate_duplicated:
  "map (\<lambda>m. (mechanism_name m, mechanism_type m, direction m))
     (extractSecurity (document [] [odata_cert]) ''F'') =
   [(JStr ''ODATA_OUT_ClientCertificate'', JStr ''Client Certificate'', JStr ''Outbound''),
    (JStr ''ODATA_OUT_ClientCert'', JStr ''Client Certificate'', JStr ''Outbound'')]"
  by code_simp

section \<open>C4: documents without message flows\<close>

lemma map_filter_empty: "(\<And>x. x \<in> set xs \<Longrightarrow> f x = None) \<Longrightarrow> List.map_filter f xs = []"
  by (induction xs) (simp_all add: List.map_filter_simps)

lemma collaborationPropSecurity_other:
  assumes "truthy_key p \<notin> {Some ''corsEnabled'', Some ''returnExceptionToSender'',
                              Some ''log'', Some ''ServerTrace''}"
  shows "collaborationPropSecurity flowId p = []"
  using assms by (cases "truthy_key p") (simp_all add: collaborationPropSecurity_def Let_def)

lemma extractAdapters_no_flows:
  "getMessageFlows doc = [] \<Longrightarrow> snd (extractAdapters doc flowId) = []"
  by (cases doc) (simp_all add: extractAdapters_def)

lemma extractSecurity_no_flows:
  "getMessageFlows doc = [] \<Longrightarrow>
   extractSecurity doc flowId = extractCollaborationSecurity doc flowId"
  by (cases doc)
     (simp_all add: extractSecurity_def extractMessageFlowSecurity_def
        extractCollaborationSecurity_def getCollaborationProperties_def)

text \<open>
  C4, as stated, promises an empty security list for every document without message
  flows. The collaboration pass of \<open>extractSecurity\<close> does not depend on the message flows:
  a collaboration property \<open>log\<close> alone yields a Security Logging record.
\<close>

theorem no_flows_security_counterexample:
  "getMessageFlows (document [property ''log'' ''All''] []) = [] \<and>
   extractSecurity (document [property ''log'' ''All''] []) ''F'' \<noteq> []"
  by code_simp

text \<open>
  C4, amended: for every parsed document whose collaboration contains zero message-flow
  fragments, adapter extraction returns an empty list, and security extraction returns
  exactly the records of the collaboration pass: an empty list when the collaboration
  carries none of the properties \<open>corsEnabled\<close>, \<open>returnExceptionToSender\<close>, \<open>log\<close> and
  \<open>ServerTrace\<close>. Neither raises: both functions are total and return lists.
\<close>

theorem no_flows_no_adapters:
  assumes "getMessageFlows doc = []"
  shows "snd (extractAdapters doc flowId) = [] \<and>
         extractSecurity doc flowId = extractCollaborationSecurity doc flowId \<and>
         ((\<forall>p \<in> set (getCollaborationProperties doc).
             truthy_key p \<notin> {Some ''corsEnabled'', Some ''returnExceptionToSender'',
                               Some ''log'', Some ''ServerTrace''}) \<longrightarrow>
          extractSecurity doc flowId = [])"
proof -
  have "extractCollaborationSecurity doc flowId = []"
    if "\<forall>p \<in> set (getCollaborationProperties doc).
          truthy_key p \<notin> {Some ''corsEnabled'', Some ''returnExceptionToSender'',
                            Some ''log'', Some ''ServerTrace''}"
    using that collaborationPropSecurity_other
    by (simp add: extractCollaborationSecurity_def)
  then show ?thesis
    using assms extractAdapters_no_flows extractSecurity_no_flows by simp
qed

theorem no_flows_no_adapters_witness:
  "getMessageFlows (document [property ''timeout'' ''5''] []) = [] \<and>
   snd (extractAdapters (document [property ''timeout'' ''5''] []) ''F'') = [] \<and>
   extractSecurity (document [property ''timeout'' ''5''] []) ''F'' = []"
proof -
  let ?doc = "document [property ''timeout'' ''5''] []"
  have h: "getMessageFlows ?doc = []"
    by code_simp
  have k: "getCollaborationProperties ?doc = [property ''timeout'' ''5'']"
    by code_simp
  have t: "truthy_key (property ''timeout'' ''5'') = Some ''timeout''"
    by code_simp
  have none: "\<forall>p \<in> set (getCollaborationProperties ?doc).
                truthy_key p \<notin> {Some ''corsEnabled'', Some ''returnExceptionToSender'',
                                  Some ''log'', Some ''ServerTrace''}"
    using k t by simp
  from no_flows_no_adapters [OF h, of "''F''"] none h show ?thesis
    by blast
qed

section \<open>C8: fragments without component type and direction\<close>

lemma processMessageFlow_skip:
  assumes "getPropertyValue (flow_properties flow) ''ComponentType'' \<in> {[], ''Unknown''}"
    and "getPropertyValue (flow_properties flow) ''direction'' \<in> {[], ''Unknown''}"
  shows "snd (processMessageFlow flow index flowId) = None"
    and "fst (processMessageFlow flow index flowId) \<noteq> []"
    and "last (fst (processMessageFlow flow index flowId)) = skip_reason flow"
  using assms
  by (cases "flow_extensionElements flow";
      auto simp: processMessageFlow_def flow_properties_def skip_reason_def str_or_def Let_def)+

lemma skip_reason_logged:
  assumes "i < length (getMessageFlows doc)"
    and "fst (processMessageFlow (getMessageFlows doc ! i) i flowId) \<noteq> []"
  shows "last (fst (processMessageFlow (getMessageFlows doc ! i) i flowId))
           \<in> set (fst (extractAdapters doc flowId))"
proof -
  let ?flows = "getMessageFlows doc"
  from assms(1) obtain defs where d: "doc = Some defs" by (cases doc) auto
  have "(i, ?flows ! i) \<in> set (enumerate 0 ?flows)"
    using assms(1) by (rule enumerate_nth_mem)
  then have "set (fst (processMessageFlow (?flows ! i) i flowId))
               \<subseteq> set (fst (extractAdapters doc flowId))"
    using assms(1) d by (force simp: extractAdapters_def Let_def)
  with assms(2) show ?thesis
    using last_in_set by blast
qed

text \<open>
  C8: a message flow in which both the \<open>ComponentType\<close> property and the \<open>direction\<close>
  property are absent (or empty) or equal to \<open>Unknown\<close> yields no adapter record, and the
  last entry that \<open>processMessageFlow\<close> logs is the reason of the skip; a document
  containing only such flows yields an empty adapters list, and its log holds the reason
  for each of them.
\<close>

theorem insufficient_flow_skipped:
  "(getPropertyValue (flow_properties flow) ''ComponentType'' \<in> {[], ''Unknown''} \<and>
    getPropertyValue (flow_properties flow) ''direction'' \<in> {[], ''Unknown''} \<longrightarrow>
    snd (processMessageFlow flow index flowId) = None \<and>
    last (fst (processMessageFlow flow index flowId)) = skip_reason flow) \<and>
   ((\<forall>f \<in> set (getMessageFlows doc).
       getPropertyValue (flow_properties f) ''ComponentType'' \<in> {[], ''Unknown''} \<and>
       getPropertyValue (flow_properties f) ''direction'' \<in> {[], ''Unknown''}) \<longrightarrow>
    snd (extractAdapters doc flowId) = [] \<and>
    (\<forall>f \<in> set (getMessageFlows doc). skip_reason f \<in> set (fst (extractAdapters doc flowId))))"
proof (intro conjI impI)
  assume "getPropertyValue (flow_properties flow) ''ComponentType'' \<in> {[], ''Unknown''} \<and>
    getPropertyValue (flow_properties flow) ''direction'' \<in> {[], ''Unknown''}"
  then show "snd (processMessageFlow flow index flowId) = None"
    and "last (fst (processMessageFlow flow index flowId)) = skip_reason flow"
    using processMessageFlow_skip by blast+
next
  assume all: "\<forall>f \<in> set (getMessageFlows doc).
       getPropertyValue (flow_properties f) ''ComponentType'' \<in> {[], ''Unknown''} \<and>
       getPropertyValue (flow_properties f) ''direction'' \<in> {[], ''Unknown''}"
  have none: "snd (processMessageFlow f i flowId) = None" if "f \<in> set (getMessageFlows doc)" for f i
    using that all processMessageFlow_skip(1) by blast
  show "snd (extractAdapters doc flowId) = []"
  proof (cases doc)
    case None
    then show ?thesis by (simp add: extractAdapters_def)
  next
    case (Some defs)
    have "List.map_filter snd
            (map (\<lambda>(index, flow). processMessageFlow flow index flowId)
               (enumerate 0 (getMessageFlows doc))) = []"
      by (rule map_filter_empty) (auto simp: in_set_enumerate_eq none)
    with Some show ?thesis by (simp add: extractAdapters_def Let_def)
  qed
  show "\<forall>f \<in> set (getMessageFlows doc). skip_reason f \<in> set (fst (extractAdapters doc flowId))"
  proof
    fix f assume "f \<in> set (getMessageFlows doc)"
    then obtain i where i: "i < length (getMessageFlows doc)" "f = getMessageFlows doc ! i"
      by (auto simp: in_set_conv_nth)
    with all have h: "getPropertyValue (flow_properties f) ''ComponentType'' \<in> {[], ''Unknown''}"
      "getPropertyValue (flow_properties f) ''direction'' \<in> {[], ''Unknown''}"
      by auto
    from processMessageFlow_skip(2,3) [OF h, of i flowId] skip_reason_logged [of i doc flowId] i
    show "skip_reason f \<in> set (fst (extractAdapters doc flowId))"
      by simp
  qed
qed

theorem insufficient_flow_skipped_witness:
  "getPropertyValue (flow_properties unknown_flow) ''ComponentType'' = ''Unknown'' \<and>
   getPropertyValue (flow_properties unknown_flow) ''direction'' = ''Unknown'' \<and>
   snd (processMessageFlow unknown_flow 0 ''F'') = None \<and>
   last (fst (processMessageFlow unknown_flow 0 ''F'')) =
     log Warn ''Skipping adapter due to missing ComponentType and direction''
       [''Name'', ''ComponentType'', ''direction''] \<and>
   getPropertyValue (flow_properties bare_flow) ''ComponentType'' = [] \<and>
   getPropertyValue (flow_properties bare_flow) ''direction'' = [] \<and>
   snd (extractAdapters (document [] [unknown_flow, bare_flow]) ''F'') = [] \<and>
   log Debug ''No extensionElements found in message flow'' []
     \<in> set (fst (extractAdapters (document [] [unknown_flow, bare_flow]) ''F''))"
proof -
  let ?doc = "document [] [unknown_flow, bare_flow]"
  have u: "getPropertyValue (flow_properties unknown_flow) ''ComponentType'' = ''Unknown''"
    "getPropertyValue (flow_properties unknown_flow) ''direction'' = ''Unknown''"
    "skip_reason unknown_flow =
       log Warn ''Skipping adapter due to missing ComponentType and direction''
         [''Name'', ''ComponentType'', ''direction'']"
    by code_simp+
  have b: "getPropertyValue (flow_properties bare_flow) ''ComponentType'' = []"
    "getPropertyValue (flow_properties bare_flow) ''direction'' = []"
    "skip_reason bare_flow = log Debug ''No extensionElements found in message flow'' []"
    by code_simp+
  have flows: "getMessageFlows ?doc = [unknown_flow, bare_flow]"
    by (simp add: document_def getMessageFlows_def)
  from insufficient_flow_skipped [of unknown_flow 0 "''F''" ?doc] u b flows
  show ?thesis by simp
qed

section \<open>C3: collaboration-level error handling\<close>

lemma set_detail_unset:
  "c_error_handling_details eh = None \<Longrightarrow> set_detail upd eh = Inl TypeError"
  by (simp add: set_detail_def)

text \<open>
  C3: \<open>returnExceptionToSender = true\<close> should give \<open>reporting_enabled = true\<close>, a \<open>log\<close>
  level that is neither empty nor \<open>None\<close> should give \<open>logging_enabled = true\<close>, and
  \<open>ServerTrace = true\<close> should give \<open>detection_enabled = true\<close>.
  \<open>extractCollaborationErrorHandling\<close> sets the flag on its local object \<open>{}\<close> and then
  writes into \<open>errorHandling.error_handling_details\<close>, which that object does not have: the
  assignment raises, \<open>extractErrorHandling\<close> catches the exception and returns the
  defaults. On each of the three documents below, whatever the process-level scan would
  have found, the flag is false.
\<close>

theorem collaboration_flags_lost:
  "reporting_enabled
     (extractErrorHandling (document [property ''returnExceptionToSender'' ''true''] [])
        (pd :: ('e, 't, 'x) process_details))
     = False \<and>
   logging_enabled (extractErrorHandling (document [property ''log'' ''All''] []) pd) = False \<and>
   detection_enabled
     (extractErrorHandling (document [property ''ServerTrace'' ''true''] []) pd) = False \<and>
   extractCollaborationErrorHandling (document [property ''returnExceptionToSender'' ''true''] [])
     = (Inl TypeError :: js_error + ('e, 't, 'x) collaboration_error_handling)"
proof -
  have p: "getCollaborationProperties (document [property k v] []) = [property k v]" for k v
    by (simp add: document_def getCollaborationProperties_def)
  have t: "truthy_key (property ''returnExceptionToSender'' ''true'')
             = Some ''returnExceptionToSender''"
    "truthy_key (property ''log'' ''All'') = Some ''log''"
    "truthy_key (property ''ServerTrace'' ''true'') = Some ''ServerTrace''"
    by code_simp+
  have e: "c_error_handling_details
             (eh \<lparr> c_reporting_enabled := a \<rparr>) = c_error_handling_details eh"
    "c_error_handling_details
             (eh \<lparr> c_logging_enabled := a \<rparr>) = c_error_handling_details eh"
    "c_error_handling_details
             (eh \<lparr> c_detection_enabled := a \<rparr>) = c_error_handling_details eh"
    for eh :: "('e, 't, 'x) collaboration_error_handling" and a
    by simp_all
  have r: "extractCollaborationErrorHandling
             (document [property ''returnExceptionToSender'' ''true''] [])
           = (Inl TypeError :: js_error + ('e, 't, 'x) collaboration_error_handling)"
    and l: "extractCollaborationErrorHandling (document [property ''log'' ''All''] [])
           = (Inl TypeError :: js_error + ('e, 't, 'x) collaboration_error_handling)"
    and s: "extractCollaborationErrorHandling (document [property ''ServerTrace'' ''true''] [])
           = (Inl TypeError :: js_error + ('e, 't, 'x) collaboration_error_handling)"
    by (simp_all add: extractCollaborationErrorHandling_def p t collaborationErrorHandlingStep_def
        bind_err_def set_detail_unset empty_collaboration_error_handling_def Let_def)
  have d: "extractErrorHandling (document ps []) pd = getDefaultErrorHandling"
    if "extractCollaborationErrorHandling (document ps [])
          = (Inl TypeError :: js_error + ('e, 't, 'x) collaboration_error_handling)" for ps
    using that by (simp add: extractErrorHandling_def document_def)
  show ?thesis
    using d [OF r] d [OF l] d [OF s] r
    by (simp add: getDefaultErrorHandling_def)
qed

section \<open>C10: truthy names that are not strings\<close>

text \<open>
  C10: required-field validation checks truth values only, string sanitization maps every
  value that is not a string to the empty string, and so the processor accepts the record
  whose \<open>mechanism_name\<close> is the number 42 and returns it with the empty string as its name.
\<close>

theorem truthy_non_string_name_accepted:
  "validateRequiredFields m required
     = list_all (\<lambda>field. truthy (mechanism_field m field)) required \<and>
   sanitizeString JUndefined n = [] \<and> sanitizeString JNull n = [] \<and>
   sanitizeString (JBool b) n = [] \<and> sanitizeString (JNum i) n = [] \<and>
   sanitizeString (JObj ob) n = [] \<and>
   truthy (JNum 42) \<and>
   validateRequiredFields
     \<lparr> mechanism_name = JNum 42, mechanism_type = JStr ''OAuth'',
       direction = JStr ''Inbound'', configuration = Some [] \<rparr>
     [''mechanism_name'', ''mechanism_type''] \<and>
   processSecurityMechanisms
     [\<lparr> mechanism_name = JNum 42, mechanism_type = JStr ''OAuth'',
        direction = JStr ''Inbound'', configuration = Some [] \<rparr>] =
     [\<lparr> processed_name = [], processed_type = TypeName ''OAuth'',
        processed_direction = ''Inbound'', processed_configuration = [] \<rparr>]"
proof -
  have v: "validateRequiredFields m required
             = list_all (\<lambda>field. truthy (mechanism_field m field)) required"
    by (induction required) simp_all
  have s: "sanitizeString JUndefined n = []" "sanitizeString JNull n = []"
    "sanitizeString (JBool b) n = []" "sanitizeString (JNum i) n = []"
    "sanitizeString (JObj ob) n = []"
    by (simp_all add: sanitizeString_def)
  have c: "truthy (JNum 42)"
    "validateRequiredFields
     \<lparr> mechanism_name = JNum 42, mechanism_type = JStr ''OAuth'',
       direction = JStr ''Inbound'', configuration = Some [] \<rparr>
     [''mechanism_name'', ''mechanism_type'']"
    "processSecurityMechanisms
     [\<lparr> mechanism_name = JNum 42, mechanism_type = JStr ''OAuth'',
        direction = JStr ''Inbound'', configuration = Some [] \<rparr>] =
     [\<lparr> processed_name = [], processed_type = TypeName ''OAuth'',
        processed_direction = ''Inbound'', processed_configuration = [] \<rparr>]"
    by code_simp+
  from v s c show ?thesis by simp
qed

section \<open>C5: the values of type normalization\<close>





section \<open>C7: JMS adapters and the merge of the three sources\<close>















section \<open>C6: deduplication\<close>

text \<open>
  While every record has a key, the loop raises nothing and appends, to the list built so
  far, the records that are the first with their key.
\<close>

lemma dedup_loop_first_by_key:
  assumes "\<forall>m \<in> set ms. \<exists>key. dedup_key m = Inr key"
  shows "dedup_loop seen out ms = Inr (out @ first_by_key seen ms)"
  using assms
proof (induction ms arbitrary: seen out)
  case Nil
  show ?case by simp
next
  case (Cons m ms)
  from Cons.prems obtain key where key: "dedup_key m = Inr key" by auto
  then have sk: "string_key m = key" by (simp add: string_key_def)
  from Cons.prems have rest: "\<forall>m \<in> set ms. \<exists>key. dedup_key m = Inr key" by simp
  show ?case
    using key sk Cons.IH [OF rest] by simp
qed

lemma first_by_key_subseq: "subseq (first_by_key seen ms) ms"
  by (induction ms arbitrary: seen) (auto intro: list_emb_Cons)

lemma first_by_key_keys:
  "set (map string_key (first_by_key seen ms)) = set (map string_key ms) - seen"
  by (induction ms arbitrary: seen) auto

lemma first_by_key_distinct: "distinct (map string_key (first_by_key seen ms))"
proof (induction ms arbitrary: seen)
  case Nil
  show ?case by simp
next
  case (Cons m ms)
  have "string_key m \<notin> set (map string_key (first_by_key (insert (string_key m) seen) ms))"
    by (simp only: first_by_key_keys) simp
  then show ?case
    using Cons.IH [of seen] Cons.IH [of "insert (string_key m) seen"] by simp
qed

lemma first_by_key_first:
  "m \<in> set (first_by_key seen ms) \<Longrightarrow> find (\<lambda>x. string_key x = string_key m) ms = Some m"
proof (induction ms arbitrary: seen)
  case Nil
  then show ?case by simp
next
  case (Cons x ms)
  show ?case
  proof (cases "string_key x \<in> seen")
    case True
    with Cons.prems have in_rest: "m \<in> set (first_by_key seen ms)" by simp
    then have "string_key m \<in> set (map string_key (first_by_key seen ms))" by simp
    then have "string_key m \<notin> seen"
      by (simp only: first_by_key_keys) simp
    with True have "string_key x \<noteq> string_key m" by auto
    with Cons.IH [OF in_rest] show ?thesis by simp
  next
    case False
    with Cons.prems have
      "m = x \<or> m \<in> set (first_by_key (insert (string_key x) seen) ms)"
      by simp
    then show ?thesis
    proof
      assume "m = x"
      then show ?thesis by simp
    next
      assume in_rest: "m \<in> set (first_by_key (insert (string_key x) seen) ms)"
      then have "string_key m
                   \<in> set (map string_key (first_by_key (insert (string_key x) seen) ms))"
        by simp
      then have "string_key m \<noteq> string_key x"
        by (simp only: first_by_key_keys) auto
      with Cons.IH [OF in_rest] show ?thesis by simp
    qed
  qed
qed

text \<open>The key determines the pair when the direction has no underscore.\<close>

lemma split_at_first:
  assumes "x \<notin> set xs" and "x \<notin> set xs'" and "xs @ x # ys = xs' @ x # ys'"
  shows "xs = xs' \<and> ys = ys'"
  using assms
proof (induction xs arbitrary: xs')
  case Nil
  then show ?case by (cases xs') auto
next
  case (Cons b bs)
  then show ?case by (cases xs') auto
qed

lemma split_at_last_underscore:
  assumes "n @ ''_'' @ d = n' @ ''_'' @ d'"
    and "CHR ''_'' \<notin> set d" and "CHR ''_'' \<notin> set d'"
  shows "n = n' \<and> d = d'"
proof -
  from assms(1) have "rev (n @ ''_'' @ d) = rev (n' @ ''_'' @ d')" by simp
  then have "rev d @ CHR ''_'' # rev n = rev d' @ CHR ''_'' # rev n'" by simp
  moreover have "CHR ''_'' \<notin> set (rev d)" "CHR ''_'' \<notin> set (rev d')"
    using assms(2,3) by simp_all
  ultimately have "rev d = rev d' \<and> rev n = rev n'"
    using split_at_first [of "CHR ''_''" "rev d" "rev d'" "rev n" "rev n'"] by blast
  then show ?thesis by simp
qed

lemma string_record_key:
  assumes "mechanism_name m = JStr n" and "direction m = JStr d"
  shows "dedup_key m = Inr (n @ ''_'' @ d)" and "string_key m = n @ ''_'' @ d"
  using assms by (simp_all add: dedup_key_def string_key_def bind_err_def)

lemma same_pair_same_key:
  "name_direction m = name_direction m' \<Longrightarrow> string_key m = string_key m'"
  by (simp add: name_direction_def string_key_def dedup_key_def)

lemma same_key_same_pair:
  assumes "string_key m = string_key m'"
    and "mechanism_name m = JStr n" "direction m = JStr d" "CHR ''_'' \<notin> set d"
    and "mechanism_name m' = JStr n'" "direction m' = JStr d'" "CHR ''_'' \<notin> set d'"
  shows "name_direction m = name_direction m'"
proof -
  from assms(1) string_record_key(2) [OF assms(2,3)] string_record_key(2) [OF assms(5,6)]
  have "n @ ''_'' @ d = n' @ ''_'' @ d'" by simp
  from split_at_last_underscore [OF this assms(4,7)] assms(2,3,5,6)
  show ?thesis by (simp add: name_direction_def)
qed

lemma direction_without_underscore:
  "d \<in> {JStr ''Inbound'', JStr ''Outbound''} \<Longrightarrow> \<exists>s. d = JStr s \<and> CHR ''_'' \<notin> set s"
  by auto

text \<open>
  C6: for every list of raw security records (the name of each a string, its direction
  \<open>Inbound\<close> or \<open>Outbound\<close>), the deduplication step returns a list (it raises nothing)
  that holds exactly one record per distinct pair of name and direction of the input:
  the pairs of the output are those of the input and no two output records share one;
  each output record is the first of the input with its pair, and the output keeps the
  input order.
\<close>

theorem dedup_first_occurrences:
  assumes "\<forall>m \<in> set ms. (\<exists>n. mechanism_name m = JStr n) \<and>
                         direction m \<in> {JStr ''Inbound'', JStr ''Outbound''}"
  shows "\<exists>out. deduplicateSecurityMechanisms ms = Inr out \<and>
               subseq out ms \<and>
               distinct (map name_direction out) \<and>
               set (map name_direction out) = set (map name_direction ms) \<and>
               (\<forall>m \<in> set out. find (\<lambda>x. name_direction x = name_direction m) ms = Some m)"
proof -
  let ?out = "first_by_key {} ms"
  have strings: "\<exists>n d. mechanism_name m = JStr n \<and> direction m = JStr d \<and> CHR ''_'' \<notin> set d"
    if "m \<in> set ms" for m
    using that assms direction_without_underscore by blast
  have keyed: "\<forall>m \<in> set ms. \<exists>key. dedup_key m = Inr key"
    using strings string_record_key(1) by blast
  have res: "deduplicateSecurityMechanisms ms = Inr ?out"
    using dedup_loop_first_by_key [OF keyed, of "{}" "[]"]
    by (simp add: deduplicateSecurityMechanisms_def)
  have sub: "subseq ?out ms" by (rule first_by_key_subseq)
  have out_ms: "set ?out \<subseteq> set ms"
  proof
    fix x assume "x \<in> set ?out"
    with sub obtain y where "y \<in> set ms" "x = y"
      by (rule list_emb_set)
    then show "x \<in> set ms" by simp
  qed
  have "distinct (map string_key ?out)" by (rule first_by_key_distinct)
  then have d: "distinct ?out" and inj: "inj_on string_key (set ?out)"
    by (simp_all add: distinct_map)
  have "inj_on name_direction (set ?out)"
  proof (rule inj_onI)
    fix x y
    assume x: "x \<in> set ?out" and y: "y \<in> set ?out"
      and "name_direction x = name_direction y"
    from this(3) have "string_key x = string_key y"
      by (rule same_pair_same_key)
    with inj show "x = y"
      using x y by (rule inj_onD)
  qed
  with d have dist: "distinct (map name_direction ?out)"
    by (simp add: distinct_map)
  have key_pair: "string_key x = string_key y \<longleftrightarrow> name_direction x = name_direction y"
    if "x \<in> set ms" "y \<in> set ms" for x y
  proof
    assume k: "string_key x = string_key y"
    from strings [OF that(1)] obtain n d where
      x: "mechanism_name x = JStr n" "direction x = JStr d" "CHR ''_'' \<notin> set d"
      by blast
    from strings [OF that(2)] obtain n' d' where
      y: "mechanism_name y = JStr n'" "direction y = JStr d'" "CHR ''_'' \<notin> set d'"
      by blast
    from k x y show "name_direction x = name_direction y"
      by (rule same_key_same_pair)
  next
    assume "name_direction x = name_direction y"
    then show "string_key x = string_key y"
      by (rule same_pair_same_key)
  qed
  have keys: "set (map string_key ?out) = set (map string_key ms)"
    by (simp only: first_by_key_keys) simp
  have pairs: "set (map name_direction ?out) = set (map name_direction ms)"
  proof
    show "set (map name_direction ?out) \<subseteq> set (map name_direction ms)"
      using out_ms by auto
    show "set (map name_direction ms) \<subseteq> set (map name_direction ?out)"
    proof
      fix pr assume "pr \<in> set (map name_direction ms)"
      then obtain x where x: "x \<in> set ms" "pr = name_direction x" by auto
      then have "string_key x \<in> set (map string_key ?out)"
        using keys by simp
      then obtain y where y: "y \<in> set ?out" "string_key y = string_key x" by auto
      with out_ms x key_pair have nd: "name_direction y = name_direction x" by blast
      from y(1) have "name_direction y \<in> set (map name_direction ?out)" by simp
      then show "pr \<in> set (map name_direction ?out)"
        unfolding x(2) nd .
    qed
  qed
  have first: "\<forall>m \<in> set ?out. find (\<lambda>x. name_direction x = name_direction m) ms = Some m"
  proof
    fix m assume m: "m \<in> set ?out"
    then have f: "find (\<lambda>x. string_key x = string_key m) ms = Some m"
      by (rule first_by_key_first)
    from m out_ms have in_ms: "m \<in> set ms" by auto
    have "find (\<lambda>x. name_direction x = name_direction m) ms
            = find (\<lambda>x. string_key x = string_key m) ms"
    proof (rule find_cong)
      show "ms = ms" ..
    next
      fix x assume "x \<in> set ms"
      with in_ms key_pair
      show "(name_direction x = name_direction m) = (string_key x = string_key m)"
        by blast
    qed
    with f show "find (\<lambda>x. name_direction x = name_direction m) ms = Some m" by simp
  qed
  from res sub dist pairs first show ?thesis by blast
qed

theorem dedup_first_occurrences_witness:
  "deduplicateSecurityMechanisms
     [mech ''A_Basic'' ''Basic Authentication'' ''Inbound'',
      mech ''B_CSRF'' ''CSRF Protection'' ''Outbound'',
      mech ''A_Basic'' ''OAuth'' ''Inbound'']
   = Inr [mech ''A_Basic'' ''Basic Authentication'' ''Inbound'',
          mech ''B_CSRF'' ''CSRF Protection'' ''Outbound''] \<and>
   set (map name_direction
          [mech ''A_Basic'' ''Basic Authentication'' ''Inbound'',
           mech ''B_CSRF'' ''CSRF Protection'' ''Outbound''])
   = set (map name_direction
          [mech ''A_Basic'' ''Basic Authentication'' ''Inbound'',
           mech ''B_CSRF'' ''CSRF Protection'' ''Outbound'',
           mech ''A_Basic'' ''OAuth'' ''Inbound'']) \<and>
   find (\<lambda>x. name_direction x
                = name_direction (mech ''A_Basic'' ''Basic Authentication'' ''Inbound''))
     [mech ''A_Basic'' ''Basic Authentication'' ''Inbound'',
      mech ''B_CSRF'' ''CSRF Protection'' ''Outbound'',
      mech ''A_Basic'' ''OAuth'' ''Inbound'']
   = Some (mech ''A_Basic'' ''Basic Authentication'' ''Inbound'')"
proof -
  let ?a = "mech ''A_Basic'' ''Basic Authentication'' ''Inbound''"
  let ?b = "mech ''B_CSRF'' ''CSRF Protection'' ''Outbound''"
  let ?c = "mech ''A_Basic'' ''OAuth'' ''Inbound''"
  have out: "deduplicateSecurityMechanisms [?a, ?b, ?c] = Inr [?a, ?b]"
    by code_simp
  have strings: "\<forall>m \<in> set [?a, ?b, ?c].
                   (\<exists>n. mechanism_name m = JStr n) \<and>
                   direction m \<in> {JStr ''Inbound'', JStr ''Outbound''}"
    by (simp add: mech_def)
  from dedup_first_occurrences [OF strings] out
  have "set (map name_direction [?a, ?b]) = set (map name_direction [?a, ?b, ?c]) \<and>
        (\<forall>m \<in> set [?a, ?b].
           find (\<lambda>x. name_direction x = name_direction m) [?a, ?b, ?c] = Some m)"
    by auto
  with out show ?thesis by simp
qed


end
